theory Spec2Isabelle
  imports Main
begin

section \<open>The robot status service (src/robot/app.py)\<close>

text \<open>
  The service is one Python module: two resolvers (\<open>get_app_version\<close>,
  \<open>get_container_status\<close>), the metrics updater \<open>update_metrics\<close> and three Flask
  views (\<open>index\<close>, \<open>health\<close>, \<open>metrics\<close>) over four module-level Prometheus
  metrics. Everything the module reads from outside the process is a field of
  \<open>world\<close>; the four metrics are the fields of \<open>registry\<close>, which every view takes
  and returns updated.
\<close>

subsection \<open>Python strings\<close>

text \<open>
  A Python \<open>str\<close> is modelled as a \<open>string\<close>, a \<open>char\<close> standing for a code point
  below 256. \<open>str.strip()\<close> without argument removes the characters for which
  \<open>str.isspace\<close> holds from both ends; in this range they are U+0009 to U+000D,
  U+001C to U+0020, U+0085 and U+00A0.
\<close>

definition py_isspace :: "char \<Rightarrow> bool" where
  "py_isspace c =
     (let n = (of_char c :: nat)
      in (9 \<le> n \<and> n \<le> 13) \<or> (28 \<le> n \<and> n \<le> 32) \<or> n = 133 \<or> n = 160)"

definition py_strip :: "string \<Rightarrow> string" where
  "py_strip s = rev (dropWhile py_isspace (rev (dropWhile py_isspace s)))"

text \<open>
  \<open>str.lower()\<close> maps every character on its own in this range: A to Z, and
  the Latin-1 capitals U+00C0 to U+00DE without the multiplication sign U+00D7, move
  up by 32.
\<close>

definition py_lower_char :: "char \<Rightarrow> char" where
  "py_lower_char c =
     (let n = (of_char c :: nat)
      in if (65 \<le> n \<and> n \<le> 90) \<or> (192 \<le> n \<and> n \<le> 222 \<and> n \<noteq> 215)
         then char_of (n + 32) else c)"

definition py_lower :: "string \<Rightarrow> string" where
  "py_lower s = map py_lower_char s"

subsection \<open>The world outside the process\<close>

text \<open>
  The exceptions of the model are classes derived from \<open>Exception\<close>. \<open>subprocess.run\<close>
  either raises or returns a \<open>CompletedProcess\<close>: it raises when the executable is
  missing or not executable, when the five seconds pass, or when the output is not
  valid text; with \<open>check\<close> left at its default a non-zero exit code raises nothing.
  \<open>os.stat\<close> raises an \<open>OSError\<close>, kept with its error number where no subclass
  stands for it, or a \<open>ValueError\<close>. \<open>OtherException\<close> is any further class, by its
  name, that derives neither from \<open>OSError\<close> nor from \<open>ValueError\<close>.
\<close>

datatype exn =
    FileNotFoundError
  | PermissionError
  | NotADirectoryError
  | OSError nat
  | ValueError
  | TimeoutExpired
  | UnicodeDecodeError
  | OtherException string

text \<open>
  The two classes an \<open>except (OSError, ValueError)\<close> clause catches, with their
  subclasses: \<open>UnicodeDecodeError\<close> is a \<open>ValueError\<close>, \<open>TimeoutExpired\<close> is neither.
\<close>

fun is_OSError :: "exn \<Rightarrow> bool" where
  "is_OSError FileNotFoundError = True"
| "is_OSError PermissionError = True"
| "is_OSError NotADirectoryError = True"
| "is_OSError (OSError n) = True"
| "is_OSError e = False"

fun is_ValueError :: "exn \<Rightarrow> bool" where
  "is_ValueError ValueError = True"
| "is_ValueError UnicodeDecodeError = True"
| "is_ValueError e = False"

text \<open>
  What the \<open>stat\<close> system call answers for a path: the file's status, which the
  service never looks at, or an error number.
\<close>

datatype stat_outcome = StatResult | StatErrno nat

datatype completed_process = CompletedProcess (returncode: int) (stdout: string)

text \<open>
  A \<open>world\<close> is what one request sees: \<open>os.environ\<close>, the outcome of running a
  command line with \<open>capture_output=True, text=True, timeout=5\<close>, and the state of
  the file system, given by what \<open>stat\<close> answers for each path.
\<close>

record world =
  environ :: "string \<rightharpoonup> string"
  subprocess_run :: "string list \<Rightarrow> exn + completed_process"
  fs_stat :: "string \<Rightarrow> stat_outcome"

definition environ_get :: "world \<Rightarrow> string \<Rightarrow> string \<Rightarrow> string" where
  "environ_get w k d = (case environ w k of None \<Rightarrow> d | Some v \<Rightarrow> v)"

subsection \<open>The standard library's existence test\<close>

text \<open>
  \<open>os.stat\<close> turns a failure of the system call into the subclass of \<open>OSError\<close>
  that belongs to the error number (1 is \<open>EPERM\<close>, 2 \<open>ENOENT\<close>, 13 \<open>EACCES\<close>,
  20 \<open>ENOTDIR\<close>) and into \<open>OSError\<close> itself for every other number. A path with
  an embedded null character never reaches the system call: it is a \<open>ValueError\<close>.
\<close>

definition oserror_of_errno :: "nat \<Rightarrow> exn" where
  "oserror_of_errno n =
     (if n = 2 then FileNotFoundError
      else if n = 1 \<or> n = 13 then PermissionError
      else if n = 20 then NotADirectoryError
      else OSError n)"

definition os_stat :: "world \<Rightarrow> string \<Rightarrow> exn + unit" where
  "os_stat w path =
     (if list_ex (\<lambda>c. of_char c = (0::nat)) path then Inl ValueError
      else case fs_stat w path of
             StatResult \<Rightarrow> Inr ()
           | StatErrno n \<Rightarrow> Inl (oserror_of_errno n))"

text \<open>
  \<open>os.path.exists\<close> is \<open>try: os.stat(path)\<close>, \<open>except (OSError, ValueError): return
  False\<close>, \<open>return True\<close>. An exception of another class would leave it.
\<close>

definition os_path_exists :: "world \<Rightarrow> string \<Rightarrow> exn + bool" where
  "os_path_exists w path =
     (case os_stat w path of
        Inl e \<Rightarrow> if is_OSError e \<or> is_ValueError e then Inr False else Inl e
      | Inr st \<Rightarrow> Inr True)"

subsection \<open>Version resolver\<close>

definition docker_inspect_args :: "world \<Rightarrow> string list" where
  \<open>docker_inspect_args w =
     [''docker'', ''inspect'', ''--format={{index .Config.Labels "version"}}'',
      environ_get w ''HOSTNAME'' ''unknown'']\<close>

text \<open>
  The \<open>try\<close> block of \<open>get_app_version\<close>: \<open>Inl e\<close> when the call raises \<open>e\<close>,
  \<open>Inr (Some v)\<close> when the block returns \<open>v\<close>, \<open>Inr None\<close> when it runs to its end.
\<close>

definition get_app_version_try :: "world \<Rightarrow> exn + string option" where
  "get_app_version_try w =
     (case subprocess_run w (docker_inspect_args w) of
        Inl e \<Rightarrow> Inl e
      | Inr result \<Rightarrow>
          if returncode result = 0 \<and> py_strip (stdout result) \<noteq> []
          then Inr (Some (py_strip (stdout result)))
          else Inr None)"

text \<open>
  \<open>except Exception: pass\<close> catches every \<open>exn\<close>; after it, and after a \<open>try\<close> block
  that did not return, comes the fallback.
\<close>

definition get_app_version :: "world \<Rightarrow> string" where
  "get_app_version w =
     (case get_app_version_try w of
        Inr (Some v) \<Rightarrow> v
      | Inr None \<Rightarrow> environ_get w ''APP_VERSION'' ''1.0.0''
      | Inl e \<Rightarrow> environ_get w ''APP_VERSION'' ''1.0.0'')"

subsection \<open>Health status resolver\<close>

text \<open>
  The \<open>try\<close> block of \<open>get_container_status\<close> as a function of what evaluating
  \<open>os.path.exists('/.dockerenv')\<close> gives, with its \<open>except Exception\<close> handler:
  \<open>Inl e\<close> stands for the check raising \<open>e\<close>. The resolver applies it to the
  outcome of the library's test on the current file system.
\<close>

definition container_status_of :: "exn + bool \<Rightarrow> string" where
  "container_status_of chk =
     (case chk of
        Inr present \<Rightarrow> if present then ''Healthy'' else ''Running (not containerized)''
      | Inl e \<Rightarrow> ''Unknown'')"

definition get_container_status :: "world \<Rightarrow> string" where
  "get_container_status w = container_status_of (os_path_exists w ''/.dockerenv'')"

subsection \<open>The metrics registry\<close>

text \<open>
  The four module-level metrics. Each is a family of series, one per tuple of label
  values in the order of the declared label names; \<open>None\<close> is a series that
  \<open>labels\<close> has not created yet. The values the module stores are 0, 1 and request
  counts, written here as integers and naturals.
\<close>

record registry =
  robot_info :: "string \<times> string \<times> string \<rightharpoonup> int"
  robot_health_status :: "string \<rightharpoonup> int"
  robot_requests_total :: "string \<times> string \<rightharpoonup> nat"
  robot_version :: "string \<times> string \<rightharpoonup> int"

definition empty_registry :: registry where
  "empty_registry =
     \<lparr>robot_info = Map.empty, robot_health_status = Map.empty,
      robot_requests_total = Map.empty, robot_version = Map.empty\<rparr>"

text \<open>A series that does not exist yet counts from 0, where \<open>labels\<close> creates it.\<close>

definition counter_value :: "('k \<rightharpoonup> nat) \<Rightarrow> 'k \<Rightarrow> nat" where
  "counter_value m k = (case m k of None \<Rightarrow> 0 | Some v \<Rightarrow> v)"

definition counter_inc :: "('k \<rightharpoonup> nat) \<Rightarrow> 'k \<Rightarrow> ('k \<rightharpoonup> nat)" where
  "counter_inc m k = m(k \<mapsto> counter_value m k + 1)"

definition gauge_set :: "('k \<rightharpoonup> int) \<Rightarrow> 'k \<Rightarrow> int \<Rightarrow> ('k \<rightharpoonup> int)" where
  "gauge_set m k v = m(k \<mapsto> v)"

subsection \<open>Metrics updater\<close>

definition update_metrics :: "world \<Rightarrow> registry \<Rightarrow> registry" where
  "update_metrics w r =
     (let robot_id = environ_get w ''ROBOT_ID'' ''1'';
          version = get_app_version w;
          status = get_container_status w;
          r1 = r\<lparr>robot_info := gauge_set (robot_info r) (robot_id, version, status) 1\<rparr>;
          r2 = r1\<lparr>robot_version := gauge_set (robot_version r1) (robot_id, version) 1\<rparr>;
          health_value = (if py_lower status = ''healthy'' then 1 else 0)
      in r2\<lparr>robot_health_status :=
               gauge_set (robot_health_status r2) robot_id health_value\<rparr>)"

subsection \<open>Route handlers\<close>

text \<open>
  What a view returns, as the source writes it: the call of \<open>render_template\<close> with
  the template's name and the dictionary passed as \<open>robot\<close> (the template is not part
  of the module), a dictionary with an explicit status code, or a \<open>Response\<close> built
  from data and a mimetype.
\<close>

datatype view_result =
    RenderTemplate string "(string \<times> string) list"
  | JsonWithStatus "(string \<times> string) list" nat
  | Response string string

text \<open>
  Flask answers a rendered template and a \<open>Response\<close> built without a status with
  200, and a \<open>(dict, status)\<close> pair with that status.
\<close>

fun status_code :: "view_result \<Rightarrow> nat" where
  "status_code (RenderTemplate t ctx) = 200"
| "status_code (JsonWithStatus d st) = st"
| "status_code (Response body_data mt) = 200"

fun mimetype :: "view_result \<Rightarrow> string option" where
  "mimetype (Response body_data mt) = Some mt"
| "mimetype v = None"

text \<open>The robot id a response carries: the \<open>id\<close> entry of the data it is built from.\<close>

fun reported_id :: "view_result \<Rightarrow> string option" where
  "reported_id (RenderTemplate t ctx) = map_of ctx ''id''"
| "reported_id (JsonWithStatus d st) = map_of d ''id''"
| "reported_id (Response body_data mt) = None"

definition CONTENT_TYPE_LATEST :: string where
  \<comment> \<open>Modelled from the spec: the constant of this name belongs to the Prometheus
      client library, which is not among the sources; the specification gives the
      content type of the metrics endpoint as this text.\<close>
  "CONTENT_TYPE_LATEST = ''text/plain; version=0.0.4''"

definition index :: "world \<Rightarrow> registry \<Rightarrow> view_result \<times> registry" where
  "index w r =
     (let robot_id = environ_get w ''ROBOT_ID'' ''1'';
          r1 = r\<lparr>robot_requests_total :=
                   counter_inc (robot_requests_total r) (''index'', robot_id)\<rparr>;
          robot_data = [(''id'', robot_id),
                        (''version'', get_app_version w),
                        (''status'', get_container_status w)];
          r2 = update_metrics w r1
      in (RenderTemplate ''index.html'' robot_data, r2))"

definition health :: "world \<Rightarrow> registry \<Rightarrow> view_result \<times> registry" where
  "health w r =
     (let robot_id = environ_get w ''ROBOT_ID'' ''1'';
          r1 = r\<lparr>robot_requests_total :=
                   counter_inc (robot_requests_total r) (''health'', robot_id)\<rparr>;
          r2 = update_metrics w r1
      in (JsonWithStatus [(''status'', ''healthy'')] 200, r2))"

text \<open>
  \<open>generate_latest\<close> is the client library's serialiser of the registry to the text
  exposition format; the view takes it as a parameter.
\<close>

definition metrics :: "(registry \<Rightarrow> string) \<Rightarrow> world \<Rightarrow> registry \<Rightarrow> view_result \<times> registry" where
  "metrics generate_latest w r =
     (let robot_id = environ_get w ''ROBOT_ID'' ''1'';
          r1 = r\<lparr>robot_requests_total :=
                   counter_inc (robot_requests_total r) (''metrics'', robot_id)\<rparr>;
          r2 = update_metrics w r1
      in (Response (generate_latest r2) CONTENT_TYPE_LATEST, r2))"

subsection \<open>Failure of the inspection tool, and sample worlds\<close>

text \<open>
  The invocation fails when \<open>subprocess.run\<close> raises (the tool is absent, the
  timeout passes), when the exit code is not 0, or when the output is empty once
  stripped.
\<close>

definition inspection_failed :: "world \<Rightarrow> bool" where
  "inspection_failed w =
     (case subprocess_run w (docker_inspect_args w) of
        Inl e \<Rightarrow> True
      | Inr result \<Rightarrow> returncode result \<noteq> 0 \<or> py_strip (stdout result) = [])"

text \<open>
  A world given by its environment variables, the outcome of every command and
  whether paths exist: where they do not, \<open>stat\<close> answers \<open>ENOENT\<close>.
\<close>

definition sample_world ::
  "(string \<times> string) list \<Rightarrow> exn + completed_process \<Rightarrow> bool \<Rightarrow> world" where
  "sample_world env outcome marker =
     \<lparr>environ = map_of env, subprocess_run = (\<lambda>args. outcome),
      fs_stat = (\<lambda>p. if marker then StatResult else StatErrno 2)\<rparr>"

section \<open>Properties\<close>

subsection \<open>Strings and the resolvers\<close>

lemma py_lower_Healthy: "py_lower ''Healthy'' = ''healthy''"
  by code_simp

lemma py_lower_Running: "py_lower ''Running (not containerized)'' \<noteq> ''healthy''"
  by code_simp

lemma py_strip_suffix:
  "dropWhile py_isspace s =
     py_strip s @ rev (takeWhile py_isspace (rev (dropWhile py_isspace s)))"
proof -
  let ?u = "rev (dropWhile py_isspace s)"
  have "py_strip s @ rev (takeWhile py_isspace ?u) =
          rev (takeWhile py_isspace ?u @ dropWhile py_isspace ?u)"
    by (simp only: py_strip_def rev_append)
  also have "\<dots> = rev ?u"
    by (simp only: takeWhile_dropWhile_id)
  finally show ?thesis
    by simp
qed

lemma py_strip_decomp:
  "s = takeWhile py_isspace s @ py_strip s
         @ rev (takeWhile py_isspace (rev (dropWhile py_isspace s)))"
proof -
  have "s = takeWhile py_isspace s @ dropWhile py_isspace s"
    by simp
  then show ?thesis
    using py_strip_suffix [of s] by simp
qed

lemma py_strip_last: "py_strip s \<noteq> [] \<Longrightarrow> \<not> py_isspace (last (py_strip s))"
  by (simp add: py_strip_def last_rev hd_dropWhile)

lemma py_strip_hd:
  assumes "py_strip s \<noteq> []"
  shows "\<not> py_isspace (hd (py_strip s))"
proof -
  let ?t = "dropWhile py_isspace s"
  have t: "?t = py_strip s @ rev (takeWhile py_isspace (rev ?t))"
    by (rule py_strip_suffix)
  from assms t have ne: "?t \<noteq> []"
    by (metis append_is_Nil_conv)
  from t assms have "hd ?t = hd (py_strip s)"
    by (metis hd_append2)
  with ne show ?thesis
    by (metis hd_dropWhile)
qed

lemma get_app_version_cases:
  "get_app_version w =
     (case subprocess_run w (docker_inspect_args w) of
        Inl e \<Rightarrow> environ_get w ''APP_VERSION'' ''1.0.0''
      | Inr result \<Rightarrow>
          if returncode result = 0 \<and> py_strip (stdout result) \<noteq> []
          then py_strip (stdout result)
          else environ_get w ''APP_VERSION'' ''1.0.0'')"
  by (simp add: get_app_version_def get_app_version_try_def split: sum.splits)

subsection \<open>Version resolver\<close>

text \<open>
  C1. Whenever the invocation of the inspection tool fails (it raises, exits with a
  non-zero code, or prints nothing but whitespace), \<open>get_app_version\<close> returns the
  value of \<open>APP_VERSION\<close> if the variable is set and \<open>1.0.0\<close> otherwise; the
  failure stays inside the function, whose result is always a string.
\<close>

theorem get_app_version_fallback:
  assumes "inspection_failed w"
  shows "get_app_version w = (case environ w ''APP_VERSION'' of Some v \<Rightarrow> v | None \<Rightarrow> ''1.0.0'')"
  using assms
  by (auto simp: inspection_failed_def get_app_version_cases environ_get_def split: sum.splits option.splits)

theorem get_app_version_fallback_witness:
  "inspection_failed (sample_world [(''APP_VERSION'', ''2.3.4'')] (Inl FileNotFoundError) True)
   \<and> get_app_version (sample_world [(''APP_VERSION'', ''2.3.4'')] (Inl FileNotFoundError) True) = ''2.3.4''
   \<and> inspection_failed (sample_world [] (Inr (CompletedProcess 1 ''1.2.3'')) True)
   \<and> get_app_version (sample_world [] (Inr (CompletedProcess 1 ''1.2.3'')) True) = ''1.0.0''"
proof -
  have a: "inspection_failed (sample_world [(''APP_VERSION'', ''2.3.4'')] (Inl FileNotFoundError) True)"
    by (simp add: inspection_failed_def sample_world_def)
  have b: "inspection_failed (sample_world [] (Inr (CompletedProcess 1 ''1.2.3'')) True)"
    by (simp add: inspection_failed_def sample_world_def)
  show ?thesis
    using a b get_app_version_fallback [OF a] get_app_version_fallback [OF b]
    by (simp add: sample_world_def)
qed

text \<open>
  C6. Whenever the invocation succeeds with exit code 0 and its output is not empty
  once stripped, \<open>get_app_version\<close> returns that output stripped, whatever
  \<open>APP_VERSION\<close> holds: the output is the result between two runs of whitespace,
  and the result neither starts nor ends with whitespace.
\<close>

theorem get_app_version_success:
  assumes "subprocess_run w (docker_inspect_args w) = Inr result"
    and "returncode result = 0"
    and "py_strip (stdout result) \<noteq> []"
  shows "get_app_version w = py_strip (stdout result)
    \<and> (\<exists>pre suf. stdout result = pre @ get_app_version w @ suf
          \<and> list_all py_isspace pre \<and> list_all py_isspace suf)
    \<and> \<not> py_isspace (hd (get_app_version w))
    \<and> \<not> py_isspace (last (get_app_version w))"
proof -
  have v: "get_app_version w = py_strip (stdout result)"
    using assms by (simp add: get_app_version_cases)
  let ?pre = "takeWhile py_isspace (stdout result)"
  let ?suf = "rev (takeWhile py_isspace (rev (dropWhile py_isspace (stdout result))))"
  have "stdout result = ?pre @ py_strip (stdout result) @ ?suf"
    by (rule py_strip_decomp)
  moreover have "list_all py_isspace ?pre"
    by (simp add: list_all_iff) (meson set_takeWhileD)
  moreover have "list_all py_isspace ?suf"
    by (simp add: list_all_iff) (meson set_takeWhileD)
  ultimately have "\<exists>pre suf. stdout result = pre @ py_strip (stdout result) @ suf
      \<and> list_all py_isspace pre \<and> list_all py_isspace suf"
    by blast
  with v assms(3) show ?thesis
    by (simp add: py_strip_hd py_strip_last)
qed

theorem get_app_version_success_witness:
  "subprocess_run
      (sample_world [(''APP_VERSION'', ''9.9.9'')] (Inr (CompletedProcess 0 '' 1.2.3\<newline>'')) True)
      (docker_inspect_args
        (sample_world [(''APP_VERSION'', ''9.9.9'')] (Inr (CompletedProcess 0 '' 1.2.3\<newline>'')) True))
     = Inr (CompletedProcess 0 '' 1.2.3\<newline>'')
   \<and> returncode (CompletedProcess 0 '' 1.2.3\<newline>'') = 0
   \<and> py_strip (stdout (CompletedProcess 0 '' 1.2.3\<newline>'')) \<noteq> []
   \<and> get_app_version
       (sample_world [(''APP_VERSION'', ''9.9.9'')] (Inr (CompletedProcess 0 '' 1.2.3\<newline>'')) True)
     = ''1.2.3''"
proof -
  let ?c = "CompletedProcess 0 '' 1.2.3\<newline>''"
  let ?w = "sample_world [(''APP_VERSION'', ''9.9.9'')] (Inr ?c) True"
  have s: "py_strip '' 1.2.3\<newline>'' = ''1.2.3''"
    by (simp add: py_strip_def py_isspace_def)
  have a: "subprocess_run ?w (docker_inspect_args ?w) = Inr ?c"
    by (simp add: sample_world_def)
  have b: "returncode ?c = 0"
    by simp
  have c: "py_strip (stdout ?c) \<noteq> []"
    by (simp add: s)
  show ?thesis
    using a b c s get_app_version_success [OF a b c] by simp
qed

subsection \<open>Health status resolver\<close>

text \<open>
  Whatever the error number, \<open>os.stat\<close> raises an \<open>OSError\<close>, which the handler in
  \<open>os.path.exists\<close> catches.
\<close>

lemma is_OSError_oserror_of_errno: "is_OSError (oserror_of_errno n)"
  by (simp add: oserror_of_errno_def)

lemma os_stat_raises:
  "os_stat w path = Inl e \<Longrightarrow> is_OSError e \<or> is_ValueError e"
  by (auto simp: os_stat_def is_OSError_oserror_of_errno split: if_splits stat_outcome.splits)

lemma os_path_exists_total:
  "os_path_exists w path = Inr (os_stat w path = Inr ())"
proof (cases "os_stat w path")
  case (Inl e)
  then show ?thesis
    using os_stat_raises [OF Inl] by (simp add: os_path_exists_def)
next
  case (Inr st)
  then show ?thesis
    by (simp add: os_path_exists_def)
qed

lemma os_stat_dockerenv:
  "os_stat w ''/.dockerenv'' =
     (case fs_stat w ''/.dockerenv'' of
        StatResult \<Rightarrow> Inr ()
      | StatErrno n \<Rightarrow> Inl (oserror_of_errno n))"
  by (simp add: os_stat_def)

lemma os_path_exists_dockerenv:
  "os_path_exists w ''/.dockerenv'' = Inr (fs_stat w ''/.dockerenv'' = StatResult)"
  by (simp add: os_path_exists_total os_stat_dockerenv split: stat_outcome.splits)

lemma get_container_status_eq:
  "get_container_status w =
     (if fs_stat w ''/.dockerenv'' = StatResult then ''Healthy''
      else ''Running (not containerized)'')"
  by (simp add: get_container_status_def container_status_of_def os_path_exists_dockerenv)

text \<open>
  C10. The \<open>except\<close> branch of \<open>get_container_status\<close> is never taken. For every
  state of the file system, a failing \<open>stat\<close> with any error number included,
  \<open>os.path.exists('/.dockerenv')\<close> raises nothing and returns a boolean, true exactly
  when \<open>stat\<close> succeeds; so the result is \<open>Healthy\<close> or
  \<open>Running (not containerized)\<close> and never \<open>Unknown\<close>.
\<close>

theorem unknown_unreachable:
  "os_path_exists w ''/.dockerenv'' = Inr (fs_stat w ''/.dockerenv'' = StatResult)
   \<and> (get_container_status w = ''Healthy''
        \<or> get_container_status w = ''Running (not containerized)'')
   \<and> get_container_status w \<noteq> ''Unknown''"
  by (simp add: os_path_exists_dockerenv get_container_status_eq)

theorem unknown_unreachable_witness:
  "os_stat (sample_world [] (Inl FileNotFoundError) False\<lparr>fs_stat := \<lambda>p. StatErrno 13\<rparr>)
      ''/.dockerenv'' = Inl PermissionError
   \<and> os_path_exists (sample_world [] (Inl FileNotFoundError) False\<lparr>fs_stat := \<lambda>p. StatErrno 13\<rparr>)
      ''/.dockerenv'' = Inr False
   \<and> get_container_status
       (sample_world [] (Inl FileNotFoundError) False\<lparr>fs_stat := \<lambda>p. StatErrno 13\<rparr>)
     = ''Running (not containerized)''
   \<and> os_path_exists (sample_world [] (Inl FileNotFoundError) False\<lparr>fs_stat := \<lambda>p. StatErrno 5\<rparr>)
      ''/.dockerenv'' = Inr False
   \<and> get_container_status (sample_world [] (Inl FileNotFoundError) True) = ''Healthy''"
  using unknown_unreachable
      [of "sample_world [] (Inl FileNotFoundError) False\<lparr>fs_stat := \<lambda>p. StatErrno 13\<rparr>"]
    unknown_unreachable
      [of "sample_world [] (Inl FileNotFoundError) False\<lparr>fs_stat := \<lambda>p. StatErrno 5\<rparr>"]
    unknown_unreachable [of "sample_world [] (Inl FileNotFoundError) True"]
  by (simp add: sample_world_def os_stat_def oserror_of_errno_def get_container_status_eq)

subsection \<open>Metrics updater\<close>

lemma update_metrics_requests:
  "robot_requests_total (update_metrics w r) = robot_requests_total r"
  by (simp add: update_metrics_def Let_def)

lemma update_metrics_health:
  "robot_health_status (update_metrics w r) (environ_get w ''ROBOT_ID'' ''1'') =
     Some (if py_lower (get_container_status w) = ''healthy'' then 1 else 0)"
  by (simp add: update_metrics_def Let_def gauge_set_def)

lemma update_metrics_info:
  "robot_info (update_metrics w r)
     (environ_get w ''ROBOT_ID'' ''1'', get_app_version w, get_container_status w) = Some 1"
  by (simp add: update_metrics_def Let_def gauge_set_def)

lemma update_metrics_version:
  "robot_version (update_metrics w r)
     (environ_get w ''ROBOT_ID'' ''1'', get_app_version w) = Some 1"
  by (simp add: update_metrics_def Let_def gauge_set_def)

lemma index_requests:
  "robot_requests_total (snd (index w r)) =
     counter_inc (robot_requests_total r) (''index'', environ_get w ''ROBOT_ID'' ''1'')"
  by (simp add: index_def Let_def update_metrics_requests)

lemma health_requests:
  "robot_requests_total (snd (health w r)) =
     counter_inc (robot_requests_total r) (''health'', environ_get w ''ROBOT_ID'' ''1'')"
  by (simp add: health_def Let_def update_metrics_requests)

lemma metrics_requests:
  "robot_requests_total (snd (metrics g w r)) =
     counter_inc (robot_requests_total r) (''metrics'', environ_get w ''ROBOT_ID'' ''1'')"
  by (simp add: metrics_def Let_def update_metrics_requests)

lemma counter_inc_same: "counter_value (counter_inc m k) k = counter_value m k + 1"
  by (simp add: counter_inc_def counter_value_def)

lemma counter_inc_other: "k' \<noteq> k \<Longrightarrow> counter_inc m k k' = m k'"
  by (simp add: counter_inc_def)

lemma health_registry:
  "snd (health w r) =
     update_metrics w (r\<lparr>robot_requests_total :=
        counter_inc (robot_requests_total r) (''health'', environ_get w ''ROBOT_ID'' ''1'')\<rparr>)"
  by (simp add: health_def Let_def)

text \<open>
  C2, as the specification states it, has \<open>update_metrics\<close> increment the request
  counter. It does not: after a call the counter family is what it was.
\<close>

theorem update_metrics_counter_counterexample:
  "robot_requests_total (update_metrics (sample_world [] (Inl FileNotFoundError) True) empty_registry)
     = robot_requests_total empty_registry"
  by (simp add: update_metrics_def Let_def)

text \<open>
  C2, amended. \<open>update_metrics\<close> takes no argument; it reads the robot id, resolves
  version and status itself, and sets three series: the info series labelled by id,
  version and status to 1, the version series labelled by id and version to 1, and the
  health series labelled by id to 1 if the status in lower case is \<open>healthy\<close> and to
  0 otherwise. It leaves the request counter as it is; each view increments the series
  of its own endpoint name and the robot id before it calls \<open>update_metrics\<close>.
\<close>

theorem update_metrics_series:
  "robot_info (update_metrics w r)
     (environ_get w ''ROBOT_ID'' ''1'', get_app_version w, get_container_status w) = Some 1
   \<and> robot_version (update_metrics w r)
       (environ_get w ''ROBOT_ID'' ''1'', get_app_version w) = Some 1
   \<and> robot_health_status (update_metrics w r) (environ_get w ''ROBOT_ID'' ''1'') =
       Some (if py_lower (get_container_status w) = ''healthy'' then 1 else 0)
   \<and> robot_requests_total (update_metrics w r) = robot_requests_total r
   \<and> robot_requests_total (snd (index w r)) =
       counter_inc (robot_requests_total r) (''index'', environ_get w ''ROBOT_ID'' ''1'')
   \<and> robot_requests_total (snd (health w r)) =
       counter_inc (robot_requests_total r) (''health'', environ_get w ''ROBOT_ID'' ''1'')
   \<and> robot_requests_total (snd (metrics g w r)) =
       counter_inc (robot_requests_total r) (''metrics'', environ_get w ''ROBOT_ID'' ''1'')"
  by (simp only: update_metrics_info update_metrics_version update_metrics_health
      update_metrics_requests index_requests health_requests metrics_requests simp_thms)

theorem update_metrics_series_witness:
  "robot_info (update_metrics (sample_world [(''ROBOT_ID'', ''7'')] (Inl TimeoutExpired) True) empty_registry)
     (''7'', ''1.0.0'', ''Healthy'') = Some 1
   \<and> robot_version (update_metrics (sample_world [(''ROBOT_ID'', ''7'')] (Inl TimeoutExpired) True) empty_registry)
       (''7'', ''1.0.0'') = Some 1
   \<and> robot_health_status (update_metrics (sample_world [(''ROBOT_ID'', ''7'')] (Inl TimeoutExpired) True) empty_registry)
       ''7'' = Some 1
   \<and> robot_requests_total (update_metrics (sample_world [(''ROBOT_ID'', ''7'')] (Inl TimeoutExpired) True) empty_registry)
       (''health'', ''7'') = None"
  using update_metrics_series
    [of "sample_world [(''ROBOT_ID'', ''7'')] (Inl TimeoutExpired) True" empty_registry "\<lambda>r. []"]
  by (simp add: sample_world_def environ_get_def get_app_version_cases get_container_status_eq
      py_lower_Healthy empty_registry_def)

text \<open>
  C4. If \<open>os.path.exists\<close> finds \<open>/.dockerenv\<close>, \<open>get_container_status\<close> returns
  \<open>Healthy\<close> and \<open>update_metrics\<close> sets the health series of the robot id to 1; in
  every other case the status differs from \<open>Healthy\<close> and the health series is set
  to 0.
\<close>

theorem marker_decides_health:
  "(os_path_exists w ''/.dockerenv'' = Inr True \<longrightarrow>
      get_container_status w = ''Healthy''
      \<and> robot_health_status (update_metrics w r) (environ_get w ''ROBOT_ID'' ''1'') = Some 1)
   \<and> (os_path_exists w ''/.dockerenv'' \<noteq> Inr True \<longrightarrow>
      get_container_status w \<noteq> ''Healthy''
      \<and> robot_health_status (update_metrics w r) (environ_get w ''ROBOT_ID'' ''1'') = Some 0)"
  by (simp add: update_metrics_health get_container_status_eq os_path_exists_dockerenv
      py_lower_Healthy py_lower_Running)

theorem marker_decides_health_witness:
  "os_path_exists (sample_world [] (Inl FileNotFoundError) True) ''/.dockerenv'' = Inr True
   \<and> get_container_status (sample_world [] (Inl FileNotFoundError) True) = ''Healthy''
   \<and> robot_health_status
        (update_metrics (sample_world [] (Inl FileNotFoundError) True) empty_registry) ''1'' = Some 1
   \<and> os_path_exists (sample_world [] (Inl FileNotFoundError) False) ''/.dockerenv'' = Inr False
   \<and> get_container_status (sample_world [] (Inl FileNotFoundError) False)
        = ''Running (not containerized)''
   \<and> robot_health_status
        (update_metrics (sample_world [] (Inl FileNotFoundError) False) empty_registry) ''1'' = Some 0"
  using marker_decides_health [of "sample_world [] (Inl FileNotFoundError) True" empty_registry]
    marker_decides_health [of "sample_world [] (Inl FileNotFoundError) False" empty_registry]
  by (simp add: sample_world_def environ_get_def get_container_status_eq
      os_path_exists_dockerenv)

subsection \<open>Route handlers\<close>

text \<open>
  C3. A request to \<open>/\<close>, \<open>/health\<close> or \<open>/metrics\<close> raises the counter series
  labelled with the endpoint's name (\<open>index\<close>, \<open>health\<close>, \<open>metrics\<close>) and the
  robot id by exactly 1 and leaves every other series of the counter, those of the
  other endpoints among them, unchanged.
\<close>

theorem request_counter_exactly_one:
  "counter_value (robot_requests_total (snd (index w r))) (''index'', environ_get w ''ROBOT_ID'' ''1'')
     = counter_value (robot_requests_total r) (''index'', environ_get w ''ROBOT_ID'' ''1'') + 1
   \<and> (\<forall>k. k \<noteq> (''index'', environ_get w ''ROBOT_ID'' ''1'') \<longrightarrow>
          robot_requests_total (snd (index w r)) k = robot_requests_total r k)
   \<and> counter_value (robot_requests_total (snd (health w r))) (''health'', environ_get w ''ROBOT_ID'' ''1'')
     = counter_value (robot_requests_total r) (''health'', environ_get w ''ROBOT_ID'' ''1'') + 1
   \<and> (\<forall>k. k \<noteq> (''health'', environ_get w ''ROBOT_ID'' ''1'') \<longrightarrow>
          robot_requests_total (snd (health w r)) k = robot_requests_total r k)
   \<and> counter_value (robot_requests_total (snd (metrics g w r))) (''metrics'', environ_get w ''ROBOT_ID'' ''1'')
     = counter_value (robot_requests_total r) (''metrics'', environ_get w ''ROBOT_ID'' ''1'') + 1
   \<and> (\<forall>k. k \<noteq> (''metrics'', environ_get w ''ROBOT_ID'' ''1'') \<longrightarrow>
          robot_requests_total (snd (metrics g w r)) k = robot_requests_total r k)"
  by (simp add: index_requests health_requests metrics_requests counter_inc_same
      counter_inc_other)

theorem request_counter_exactly_one_witness:
  "counter_value (robot_requests_total
      (snd (health (sample_world [] (Inl FileNotFoundError) False)
             (snd (health (sample_world [] (Inl FileNotFoundError) False) empty_registry)))))
      (''health'', ''1'') = 2
   \<and> robot_requests_total
      (snd (health (sample_world [] (Inl FileNotFoundError) False)
             (snd (health (sample_world [] (Inl FileNotFoundError) False) empty_registry))))
      (''index'', ''1'') = None"
  using request_counter_exactly_one
    [of "sample_world [] (Inl FileNotFoundError) False"
        "snd (health (sample_world [] (Inl FileNotFoundError) False) empty_registry)" "\<lambda>r. []"]
    request_counter_exactly_one
    [of "sample_world [] (Inl FileNotFoundError) False" empty_registry "\<lambda>r. []"]
  by (simp add: sample_world_def environ_get_def empty_registry_def counter_value_def)

text \<open>
  C5. Neither resolver surfaces an error: whatever exception the tool invocation
  raises, \<open>get_app_version\<close> returns the fallback; the handler of the health check
  turns any exception into \<open>Unknown\<close>; and all three views answer with status 200.
\<close>

theorem failures_contained:
  "(\<forall>e. subprocess_run w (docker_inspect_args w) = Inl e \<longrightarrow>
        get_app_version w = environ_get w ''APP_VERSION'' ''1.0.0'')
   \<and> (\<forall>e. container_status_of (Inl e) = ''Unknown'')
   \<and> status_code (fst (index w r)) = 200
   \<and> status_code (fst (health w r)) = 200
   \<and> status_code (fst (metrics g w r)) = 200"
  by (simp add: get_app_version_cases container_status_of_def index_def health_def metrics_def
      Let_def)

theorem failures_contained_witness:
  "subprocess_run (sample_world [] (Inl TimeoutExpired) False)
      (docker_inspect_args (sample_world [] (Inl TimeoutExpired) False)) = Inl TimeoutExpired
   \<and> get_app_version (sample_world [] (Inl TimeoutExpired) False) = ''1.0.0''
   \<and> container_status_of (Inl PermissionError) = ''Unknown''
   \<and> status_code (fst (index (sample_world [] (Inl TimeoutExpired) False) empty_registry)) = 200"
  using failures_contained [of "sample_world [] (Inl TimeoutExpired) False" empty_registry "\<lambda>r. []"]
  by (simp add: sample_world_def environ_get_def)

text \<open>
  C7. Every request to \<open>/health\<close> is answered with the dictionary
  \<open>{"status": "healthy"}\<close> and status 200, whatever the marker file, the inspection
  tool and the resolved status are.
\<close>

theorem health_always_200:
  "fst (health w r) = JsonWithStatus [(''status'', ''healthy'')] 200
   \<and> status_code (fst (health w r)) = 200"
  by (simp add: health_def Let_def)

theorem health_always_200_witness:
  "fst (health (sample_world [] (Inl FileNotFoundError) False) empty_registry)
     = JsonWithStatus [(''status'', ''healthy'')] 200
   \<and> get_container_status (sample_world [] (Inl FileNotFoundError) False) \<noteq> ''Healthy''"
  using health_always_200 [of "sample_world [] (Inl FileNotFoundError) False" empty_registry]
  by (simp add: get_container_status_eq sample_world_def)

text \<open>
  C8. Every request to \<open>/metrics\<close> is answered with status 200 and the content type
  \<open>text/plain; version=0.0.4\<close>; the body is what the client library's serialiser
  makes of the registry as this request leaves it.
\<close>

theorem metrics_response:
  "status_code (fst (metrics generate_latest w r)) = 200
   \<and> mimetype (fst (metrics generate_latest w r)) = Some ''text/plain; version=0.0.4''
   \<and> fst (metrics generate_latest w r) =
       Response (generate_latest (snd (metrics generate_latest w r))) CONTENT_TYPE_LATEST"
  by (simp add: metrics_def Let_def CONTENT_TYPE_LATEST_def)

text \<open>
  C9, as the specification states it, has the health endpoint report the robot id.
  Its response does not carry one: with \<open>ROBOT_ID\<close> set to 7 the body is still the
  fixed dictionary.
\<close>

theorem health_reports_no_id_counterexample:
  "reported_id (fst (health (sample_world [(''ROBOT_ID'', ''7'')] (Inl FileNotFoundError) True)
       empty_registry))
     \<noteq> Some (environ_get (sample_world [(''ROBOT_ID'', ''7'')] (Inl FileNotFoundError) True)
          ''ROBOT_ID'' ''1'')"
  by (simp add: health_def Let_def)

text \<open>
  C9, amended. The robot id is \<open>ROBOT_ID\<close>, or \<open>1\<close> when the variable is unset.
  The index endpoint reports it as the \<open>id\<close> of the data it renders. The health
  endpoint's response is the fixed dictionary and carries no id; the id labels the
  metric series the endpoint updates.
\<close>

theorem robot_id_reported:
  "environ_get w ''ROBOT_ID'' ''1'' = (case environ w ''ROBOT_ID'' of None \<Rightarrow> ''1'' | Some v \<Rightarrow> v)
   \<and> reported_id (fst (index w r)) = Some (environ_get w ''ROBOT_ID'' ''1'')
   \<and> fst (health w r) = JsonWithStatus [(''status'', ''healthy'')] 200
   \<and> reported_id (fst (health w r)) = None
   \<and> robot_requests_total (snd (health w r)) =
       counter_inc (robot_requests_total r) (''health'', environ_get w ''ROBOT_ID'' ''1'')
   \<and> robot_health_status (snd (health w r)) (environ_get w ''ROBOT_ID'' ''1'') \<noteq> None
   \<and> robot_info (snd (health w r))
       (environ_get w ''ROBOT_ID'' ''1'', get_app_version w, get_container_status w) \<noteq> None
   \<and> robot_version (snd (health w r))
       (environ_get w ''ROBOT_ID'' ''1'', get_app_version w) \<noteq> None"
proof -
  let ?rid = "environ_get w ''ROBOT_ID'' ''1''"
  have a: "?rid = (case environ w ''ROBOT_ID'' of None \<Rightarrow> ''1'' | Some v \<Rightarrow> v)"
    by (simp add: environ_get_def)
  have b: "reported_id (fst (index w r)) = Some ?rid"
    by (simp add: index_def Let_def)
  have c: "fst (health w r) = JsonWithStatus [(''status'', ''healthy'')] 200"
    by (simp add: health_def Let_def)
  have d: "reported_id (fst (health w r)) = None"
    by (simp add: c)
  have e: "robot_requests_total (snd (health w r)) =
      counter_inc (robot_requests_total r) (''health'', ?rid)"
    by (rule health_requests)
  have f: "robot_health_status (snd (health w r)) ?rid \<noteq> None"
    by (simp only: health_registry update_metrics_health) simp
  have g: "robot_info (snd (health w r)) (?rid, get_app_version w, get_container_status w)
      \<noteq> None"
    by (simp only: health_registry update_metrics_info) simp
  have h: "robot_version (snd (health w r)) (?rid, get_app_version w) \<noteq> None"
    by (simp only: health_registry update_metrics_version) simp
  show ?thesis
    by (intro conjI) (rule a b c d e f g h)+
qed

theorem robot_id_reported_witness:
  "reported_id (fst (index (sample_world [(''ROBOT_ID'', ''7'')] (Inl FileNotFoundError) True)
       empty_registry)) = Some ''7''
   \<and> reported_id (fst (index (sample_world [] (Inl FileNotFoundError) True)
       empty_registry)) = Some ''1''
   \<and> reported_id (fst (health (sample_world [(''ROBOT_ID'', ''7'')] (Inl FileNotFoundError) True)
       empty_registry)) = None"
  using robot_id_reported [of "sample_world [(''ROBOT_ID'', ''7'')] (Inl FileNotFoundError) True" empty_registry]
    robot_id_reported [of "sample_world [] (Inl FileNotFoundError) True" empty_registry]
  by (simp add: sample_world_def environ_get_def)

end
